theory Spec2Isabelle
  imports Main "HOL-Library.AList"
begin

section \<open>JavaScript values\<close>

text \<open>
  The arguments of \<^verbatim>\<open>DataCollection\<close> are untyped JavaScript values: the code tests
  them with \<^verbatim>\<open>!rallyId\<close>, \<^verbatim>\<open>typeof\<close>, \<^verbatim>\<open>=== undefined\<close> and
  \<^verbatim>\<open>=== "pioneer-core"\<close>. They are modelled as JSON-like trees. An omitted argument is
  \<open>JUndefined\<close>. Numbers are integers plus \<open>JNaN\<close>: the code only ever observes whether
  a number is falsy. The own properties of a plain object are an association list, read
  through \<open>map_of\<close>; the position of a pair in the list carries no meaning.
\<close>

datatype jsval =
    JUndefined
  | JNull
  | JBool bool
  | JNum int
  | JNaN
  | JStr string
  | JArr "jsval list"
  | JObj "(string \<times> jsval) list"

type_synonym jsobj = "(string \<times> jsval) list"

fun typeof :: "jsval \<Rightarrow> string" where
  "typeof JUndefined = ''undefined''"
| "typeof JNull = ''object''"
| "typeof (JBool b) = ''boolean''"
| "typeof (JNum n) = ''number''"
| "typeof JNaN = ''number''"
| "typeof (JStr s) = ''string''"
| "typeof (JArr xs) = ''object''"
| "typeof (JObj ps) = ''object''"

text \<open>\<open>ToBoolean v\<close> is the truthiness of \<open>v\<close>; \<^verbatim>\<open>!v\<close> is its negation.\<close>

fun ToBoolean :: "jsval \<Rightarrow> bool" where
  "ToBoolean JUndefined = False"
| "ToBoolean JNull = False"
| "ToBoolean (JBool b) = b"
| "ToBoolean (JNum n) = (n \<noteq> 0)"
| "ToBoolean JNaN = False"
| "ToBoolean (JStr s) = (s \<noteq> [])"
| "ToBoolean (JArr xs) = True"
| "ToBoolean (JObj ps) = True"

text \<open>
  \<^verbatim>\<open>k in obj\<close> and \<^verbatim>\<open>obj[k]\<close> on a plain object, for a name \<open>k\<close> that
  \<^verbatim>\<open>Object.prototype\<close> does not define (the code uses them with the seven survey
  question names only). A missing property reads as \<^verbatim>\<open>undefined\<close>.
\<close>

definition has_property :: "jsobj \<Rightarrow> string \<Rightarrow> bool" where
  "has_property obj k = (case map_of obj k of None \<Rightarrow> False | Some v \<Rightarrow> True)"

definition get_property :: "jsobj \<Rightarrow> string \<Rightarrow> jsval" where
  "get_property obj k = (case map_of obj k of None \<Rightarrow> JUndefined | Some v \<Rightarrow> v)"

text \<open>
  The property key of a value used as \<^verbatim>\<open>obj[v]\<close> or \<^verbatim>\<open>{ [v]: ... }\<close>: a string is
  its own key, any other value is converted by the engine's \<^verbatim>\<open>ToString\<close>, which is a
  parameter \<open>tostr\<close> of the model.
\<close>

definition ToPropertyKey :: "(jsval \<Rightarrow> string) \<Rightarrow> jsval \<Rightarrow> string" where
  "ToPropertyKey tostr v = (case v of JStr s \<Rightarrow> s | _ \<Rightarrow> tostr v)"

text \<open>
  The assignment \<^verbatim>\<open>obj[k] = v\<close> on a plain object. It creates or overwrites the own
  property \<open>k\<close>, except for the name \<^verbatim>\<open>__proto__\<close>: that name is an accessor of
  \<^verbatim>\<open>Object.prototype\<close>, so the assignment runs its setter and the own properties of
  \<open>obj\<close> stay as they are.
\<close>

definition set_property :: "jsobj \<Rightarrow> string \<Rightarrow> jsval \<Rightarrow> jsobj" where
  "set_property obj k v = (if k = ''__proto__'' then obj else AList.update k v obj)"

section \<open>The host and the observable world\<close>

text \<open>The options object that \<^verbatim>\<open>sendPing\<close> builds, with the field names of the source.\<close>

record PingOptions =
  studyName :: jsval
  addPioneerId :: bool
  overridePioneerId :: jsval
  encryptionKeyId :: jsval
  publicKey :: jsval
  schemaName :: jsval
  schemaVersion :: int
  schemaNamespace :: jsval

text \<open>One invocation of \<^verbatim>\<open>browser.firefoxPrivilegedApi.submitEncryptedPing\<close>.\<close>

record ping_call =
  pingType :: string
  pingPayload :: jsval
  pingOptions :: PingOptions

text \<open>
  What a call to the host primitive does: it returns a promise that is fulfilled, it
  returns a promise that is rejected with an error, or the call itself throws (the
  WebExtension binding refuses the arguments, say) and returns no promise at all. A
  promise that never settles is outside the model.
\<close>

datatype outcome = Resolved | Rejected string | Threw string

datatype log_entry =
    ConsoleDebug PingOptions jsval
  | ConsoleError string

text \<open>
  The effects of the class: the calls made to the host primitive, in order, and the lines
  written to the console.
\<close>

record world =
  calls :: "ping_call list"
  console :: "log_entry list"

datatype error =
    InvalidRallyId jsval
  | MissingStudyId
  | TypeError
  | HostError string

type_synonym 'a result = "(error + 'a) \<times> world"

section \<open>DataCollection\<close>

definition CORE_ENCRYPTION_KEY_ID :: jsval where
  "CORE_ENCRYPTION_KEY_ID = JStr ''core''"

definition CORE_ENCRYPTION_JWK :: jsval where
  "CORE_ENCRYPTION_JWK = JObj
     [(''crv'', JStr ''P-256''),
      (''kid'', JStr ''core''),
      (''kty'', JStr ''EC''),
      (''x'', JStr ''muvXFcGjbk2uZCCa8ycoH8hVxeDCGPQ9Ed2-QHlTtuc''),
      (''y'', JStr ''xrLUev8_yUrSFAlabnHInvU4JKc6Ew3YXaaoDloQxw8'')]"

text \<open>The key object literal of the else branch of \<^verbatim>\<open>_sendEmptyPing\<close>.\<close>

definition DISCARDED_JWK :: jsval where
  "DISCARDED_JWK = JObj
     [(''crv'', JStr ''P-256''),
      (''kty'', JStr ''EC''),
      (''x'', JStr ''XLkI3NaY3-AF2nRMspC63BT1u0Y3moXYSfss7VuQ0mk''),
      (''y'', JStr ''SB0KnIW-pqk85OIEYZenoNkEyOOp5GeWQhS1KeRtEUE'')]"

text \<open>
  \<^verbatim>\<open>sendPing\<close>. The guard throws before anything else happens. Otherwise the primitive
  \<open>submit\<close> is called once. On the promise it returns, \<^verbatim>\<open>.then\<close> writes a debug
  line, \<^verbatim>\<open>.catch\<close> writes an error line, and the awaited promise is fulfilled in both
  cases. The handlers are attached to the returned promise and there is no
  \<^verbatim>\<open>try\<close> around the call: when the call itself throws, nothing is written and the
  exception leaves \<^verbatim>\<open>sendPing\<close>.

  The methods are \<^verbatim>\<open>async\<close>: a \<^verbatim>\<open>throw\<close> rejects the promise the method returns,
  and the model returns that error as the result. One call is modelled from start to
  end; the interleaving of several calls in flight is not.
\<close>

definition sendPing ::
  "(ping_call \<Rightarrow> outcome) \<Rightarrow> jsval \<Rightarrow> jsval \<Rightarrow> jsval \<Rightarrow> jsval \<Rightarrow> jsval \<Rightarrow> jsval
     \<Rightarrow> world \<Rightarrow> unit result" where
  "sendPing submit rallyId payloadType payload namespace keyId key w =
     (if \<not> ToBoolean rallyId \<or> typeof rallyId \<noteq> ''string''
      then (Inl (InvalidRallyId rallyId), w)
      else
        let options = \<lparr>studyName = namespace,
                       addPioneerId = True,
                       overridePioneerId = rallyId,
                       encryptionKeyId = keyId,
                       publicKey = key,
                       schemaName = payloadType,
                       schemaVersion = 1,
                       schemaNamespace = namespace\<rparr>;
            c = \<lparr>pingType = ''pioneer-study'', pingPayload = payload, pingOptions = options\<rparr>;
            w1 = w\<lparr>calls := calls w @ [c]\<rparr>
        in case submit c of
             Resolved \<Rightarrow> (Inr (), w1\<lparr>console := console w1 @ [ConsoleDebug options payload]\<rparr>)
           | Rejected err \<Rightarrow> (Inr (), w1\<lparr>console := console w1 @ [ConsoleError err]\<rparr>)
           | Threw err \<Rightarrow> (Inl (HostError err), w1))"

text \<open>\<^verbatim>\<open>_sendEmptyPing\<close> (an Isabelle name cannot start with an underscore).\<close>

definition sendEmptyPing ::
  "(ping_call \<Rightarrow> outcome) \<Rightarrow> jsval \<Rightarrow> jsval \<Rightarrow> jsval \<Rightarrow> world \<Rightarrow> unit result" where
  "sendEmptyPing submit rallyId payloadType namespace w =
     (let (keyId, publicKey) =
            (if namespace = JStr ''pioneer-core''
             then (CORE_ENCRYPTION_KEY_ID, CORE_ENCRYPTION_JWK)
             else (JStr ''discarded'', DISCARDED_JWK))
      in sendPing submit rallyId payloadType (JObj []) namespace keyId publicKey w)"

definition sendEnrollmentPing ::
  "(ping_call \<Rightarrow> outcome) \<Rightarrow> jsval \<Rightarrow> jsval \<Rightarrow> world \<Rightarrow> unit result" where
  "sendEnrollmentPing submit rallyId studyAddonId w =
     (if studyAddonId \<noteq> JUndefined
      then sendEmptyPing submit rallyId (JStr ''pioneer-enrollment'') studyAddonId w
      else sendEmptyPing submit rallyId (JStr ''pioneer-enrollment'') (JStr ''pioneer-core'') w)"

definition sendDeletionPing ::
  "(ping_call \<Rightarrow> outcome) \<Rightarrow> jsval \<Rightarrow> jsval \<Rightarrow> world \<Rightarrow> unit result" where
  "sendDeletionPing submit rallyId studyAddonId w =
     (if studyAddonId = JUndefined
      then (Inl MissingStudyId, w)
      else sendEmptyPing submit rallyId (JStr ''deletion-request'') studyAddonId w)"

definition FIELD_MAPPING :: "(string \<times> string) list" where
  "FIELD_MAPPING =
     [(''age'', ''age''),
      (''gender'', ''gender''),
      (''hispanicLatinoSpanishOrigin'', ''origin''),
      (''school'', ''education''),
      (''income'', ''income''),
      (''zipCode'', ''zipCode'')]"

text \<open>
  The \<^verbatim>\<open>for (const [originalField, newName] of Object.entries(FIELD_MAPPING))\<close> loop,
  over the entries that are left, with the object \<open>processed\<close> built so far.
\<close>

fun map_fields :: "(jsval \<Rightarrow> string) \<Rightarrow> jsobj \<Rightarrow> (string \<times> string) list \<Rightarrow> jsobj \<Rightarrow> jsobj" where
  "map_fields tostr data [] processed = processed"
| "map_fields tostr data ((originalField, newName) # entries) processed =
     map_fields tostr data entries
       (if has_property data originalField
        then set_property processed newName
               (JObj [(ToPropertyKey tostr (get_property data originalField), JBool True)])
        else processed)"

text \<open>\<^verbatim>\<open>race.reduce((a, b) => ((a[b] = true), a), {})\<close> on the elements of an array.\<close>

definition reduce_races :: "(jsval \<Rightarrow> string) \<Rightarrow> jsval list \<Rightarrow> jsobj" where
  "reduce_races tostr race =
     foldl (\<lambda>a b. set_property a (ToPropertyKey tostr b) (JBool True)) [] race"

text \<open>
  \<^verbatim>\<open>sendDemographicSurveyPing\<close>, for \<open>data\<close> a plain object. A \<^verbatim>\<open>race\<close> that is not
  an array has no \<^verbatim>\<open>reduce\<close> method, and the call throws a \<^verbatim>\<open>TypeError\<close>.
\<close>

definition sendDemographicSurveyPing ::
  "(jsval \<Rightarrow> string) \<Rightarrow> (ping_call \<Rightarrow> outcome) \<Rightarrow> jsval \<Rightarrow> jsobj \<Rightarrow> world \<Rightarrow> unit result" where
  "sendDemographicSurveyPing tostr submit rallyId data w =
     (let processed = map_fields tostr data FIELD_MAPPING [] in
      if has_property data ''race''
      then (case get_property data ''race'' of
              JArr race \<Rightarrow>
                sendPing submit rallyId (JStr ''demographic-survey'')
                  (JObj (set_property processed ''races'' (JObj (reduce_races tostr race))))
                  (JStr ''pioneer-core'') CORE_ENCRYPTION_KEY_ID CORE_ENCRYPTION_JWK w
            | _ \<Rightarrow> (Inl TypeError, w))
      else sendPing submit rallyId (JStr ''demographic-survey'') (JObj processed)
             (JStr ''pioneer-core'') CORE_ENCRYPTION_KEY_ID CORE_ENCRYPTION_JWK w)"

section \<open>Predicates used by the statements\<close>

text \<open>A call raised: its result is an error.\<close>

definition raises :: "'a result \<Rightarrow> bool" where
  "raises r = (case fst r of Inl e \<Rightarrow> True | Inr v \<Rightarrow> False)"

text \<open>A call raised the error of the participant-id guard.\<close>

definition raises_invalid_id :: "'a result \<Rightarrow> bool" where
  "raises_invalid_id r = (case fst r of Inl (InvalidRallyId v) \<Rightarrow> True | _ \<Rightarrow> False)"

text \<open>A call to the host routes its study name and its schema namespace alike.\<close>

definition routing_consistent :: "ping_call \<Rightarrow> bool" where
  "routing_consistent c = (studyName (pingOptions c) = schemaNamespace (pingOptions c))"


section \<open>Fixtures for concrete runs\<close>

text \<open>
  A host that accepts every ping, a host that rejects every ping, a host whose call
  throws, and the world before any call. \<open>tostr_object\<close> stands in for \<^verbatim>\<open>ToString\<close> in runs whose answers are all
  strings, where it is never consulted.
\<close>

definition submit_ok :: "ping_call \<Rightarrow> outcome" where
  "submit_ok c = Resolved"

definition submit_fails :: "ping_call \<Rightarrow> outcome" where
  "submit_fails c = Rejected ''NetworkError''"

definition submit_throws :: "ping_call \<Rightarrow> outcome" where
  "submit_throws c = Threw ''Type error for parameter options''"

definition fresh :: world where
  "fresh = \<lparr>calls = [], console = []\<rparr>"

definition tostr_object :: "jsval \<Rightarrow> string" where
  "tostr_object v = ''[object Object]''"

section \<open>The dispatch primitive\<close>

lemma sendPing_invalid:
  "\<not> ToBoolean rallyId \<or> typeof rallyId \<noteq> ''string'' \<Longrightarrow>
   sendPing submit rallyId t pl ns kid key w = (Inl (InvalidRallyId rallyId), w)"
  by (simp add: sendPing_def)

lemma sendPing_valid:
  "p \<noteq> [] \<Longrightarrow>
   sendPing submit (JStr p) t pl ns kid key w =
     (case submit
         \<lparr>pingType = ''pioneer-study'', pingPayload = pl,
           pingOptions = \<lparr>studyName = ns, addPioneerId = True, overridePioneerId = JStr p,
             encryptionKeyId = kid, publicKey = key, schemaName = t, schemaVersion = 1,
             schemaNamespace = ns\<rparr>\<rparr> of
        Resolved \<Rightarrow>
          (Inr (),
           \<lparr>calls = calls w @
              [\<lparr>pingType = ''pioneer-study'', pingPayload = pl,
           pingOptions = \<lparr>studyName = ns, addPioneerId = True, overridePioneerId = JStr p,
             encryptionKeyId = kid, publicKey = key, schemaName = t, schemaVersion = 1,
             schemaNamespace = ns\<rparr>\<rparr>],
            console = console w @
              [ConsoleDebug
                 \<lparr>studyName = ns, addPioneerId = True, overridePioneerId = JStr p,
             encryptionKeyId = kid, publicKey = key, schemaName = t, schemaVersion = 1,
             schemaNamespace = ns\<rparr> pl]\<rparr>)
      | Rejected err \<Rightarrow>
          (Inr (),
           \<lparr>calls = calls w @
              [\<lparr>pingType = ''pioneer-study'', pingPayload = pl,
           pingOptions = \<lparr>studyName = ns, addPioneerId = True, overridePioneerId = JStr p,
             encryptionKeyId = kid, publicKey = key, schemaName = t, schemaVersion = 1,
             schemaNamespace = ns\<rparr>\<rparr>],
            console = console w @ [ConsoleError err]\<rparr>)
      | Threw err \<Rightarrow>
          (Inl (HostError err),
           \<lparr>calls = calls w @
              [\<lparr>pingType = ''pioneer-study'', pingPayload = pl,
           pingOptions = \<lparr>studyName = ns, addPioneerId = True, overridePioneerId = JStr p,
             encryptionKeyId = kid, publicKey = key, schemaName = t, schemaVersion = 1,
             schemaNamespace = ns\<rparr>\<rparr>],
            console = console w\<rparr>))"
  by (simp add: sendPing_def Let_def split: outcome.split)

lemma sendPing_calls:
  "p \<noteq> [] \<Longrightarrow>
   calls (snd (sendPing submit (JStr p) t pl ns kid key w)) =
     calls w @
       [\<lparr>pingType = ''pioneer-study'', pingPayload = pl,
           pingOptions = \<lparr>studyName = ns, addPioneerId = True, overridePioneerId = JStr p,
             encryptionKeyId = kid, publicKey = key, schemaName = t, schemaVersion = 1,
             schemaNamespace = ns\<rparr>\<rparr>]"
  by (simp add: sendPing_valid split: outcome.split)

lemma sendPing_returns:
  "p \<noteq> [] \<Longrightarrow>
   fst (sendPing submit (JStr p) t pl ns kid key w) =
     (case submit
         \<lparr>pingType = ''pioneer-study'', pingPayload = pl,
           pingOptions = \<lparr>studyName = ns, addPioneerId = True, overridePioneerId = JStr p,
             encryptionKeyId = kid, publicKey = key, schemaName = t, schemaVersion = 1,
             schemaNamespace = ns\<rparr>\<rparr> of
        Threw err \<Rightarrow> Inl (HostError err)
      | _ \<Rightarrow> Inr ())"
  by (simp add: sendPing_valid split: outcome.split)

lemma valid_rally_id:
  "(ToBoolean v \<and> typeof v = ''string'') = (\<exists>p. p \<noteq> [] \<and> v = JStr p)"
  by (cases v) auto

text \<open>
  C1. For every non-empty string participant id \<open>p\<close> and every kind label, payload,
  namespace, key id and key, \<open>sendPing\<close> calls the host primitive with the outer type
  \<^verbatim>\<open>"pioneer-study"\<close>, the payload as given, and options whose schema name is the kind
  label, whose schema namespace is the namespace, whose schema version is 1, whose
  \<^verbatim>\<open>addPioneerId\<close> (the participant-id flag) is true and whose
  \<^verbatim>\<open>overridePioneerId\<close> (the participant-id override) is \<open>p\<close>.
\<close>

theorem sendPing_builds_options:
  assumes "p \<noteq> []"
  shows "\<exists>c. calls (snd (sendPing submit (JStr p) kindLabel payload namespace keyId key w)) = calls w @ [c]
           \<and> pingType c = ''pioneer-study''
           \<and> pingPayload c = payload
           \<and> schemaName (pingOptions c) = kindLabel
           \<and> schemaNamespace (pingOptions c) = namespace
           \<and> schemaVersion (pingOptions c) = 1
           \<and> addPioneerId (pingOptions c) = True
           \<and> overridePioneerId (pingOptions c) = JStr p"
  using assms by (simp add: sendPing_calls)

theorem sendPing_builds_options_witness:
  "''R1'' \<noteq> [] \<and>
   (\<exists>c. calls (snd (sendPing submit_ok (JStr ''R1'') (JStr ''pioneer-enrollment'') (JObj [])
                     (JStr ''pioneer-core'') CORE_ENCRYPTION_KEY_ID CORE_ENCRYPTION_JWK fresh))
           = calls fresh @ [c]
       \<and> pingType c = ''pioneer-study''
       \<and> pingPayload c = JObj []
       \<and> schemaName (pingOptions c) = JStr ''pioneer-enrollment''
       \<and> schemaNamespace (pingOptions c) = JStr ''pioneer-core''
       \<and> schemaVersion (pingOptions c) = 1
       \<and> addPioneerId (pingOptions c) = True
       \<and> overridePioneerId (pingOptions c) = JStr ''R1'')"
  using sendPing_builds_options [of "''R1''" submit_ok "JStr ''pioneer-enrollment''" "JObj []"
      "JStr ''pioneer-core''" CORE_ENCRYPTION_KEY_ID CORE_ENCRYPTION_JWK fresh]
  by simp

text \<open>
  C2. \<open>sendPing\<close> raises the invalid-id error if and only if the participant id is the
  empty string, another falsy value, or not of string type, that is, if and only if it
  is not a non-empty string; when it raises that error the world is unchanged, so the
  host primitive has not been called.
\<close>

theorem sendPing_validation:
  "(raises_invalid_id (sendPing submit rallyId kindLabel payload namespace keyId key w)
      \<longleftrightarrow> (rallyId = JStr '''' \<or> \<not> ToBoolean rallyId \<or> typeof rallyId \<noteq> ''string''))
   \<and> (raises_invalid_id (sendPing submit rallyId kindLabel payload namespace keyId key w)
      \<longleftrightarrow> \<not> (\<exists>p. p \<noteq> [] \<and> rallyId = JStr p))
   \<and> (raises_invalid_id (sendPing submit rallyId kindLabel payload namespace keyId key w)
      \<longrightarrow> sendPing submit rallyId kindLabel payload namespace keyId key w
            = (Inl (InvalidRallyId rallyId), w))"
proof (cases "ToBoolean rallyId \<and> typeof rallyId = ''string''")
  case True
  then obtain p where p: "p \<noteq> []" "rallyId = JStr p"
    by (auto simp: valid_rally_id)
  then have "\<not> raises_invalid_id (sendPing submit rallyId kindLabel payload namespace keyId key w)"
    by (simp add: raises_invalid_id_def sendPing_returns split: outcome.split)
  with p show ?thesis
    by simp
next
  case False
  then have "sendPing submit rallyId kindLabel payload namespace keyId key w
               = (Inl (InvalidRallyId rallyId), w)"
    by (intro sendPing_invalid) blast
  with False show ?thesis
    by (auto simp: raises_invalid_id_def valid_rally_id [symmetric])
qed

theorem sendPing_validation_witness:
  "raises_invalid_id (sendPing submit_ok (JStr '''') (JStr ''pioneer-enrollment'') (JObj [])
             (JStr ''pioneer-core'') CORE_ENCRYPTION_KEY_ID CORE_ENCRYPTION_JWK fresh)
   \<and> calls (snd (sendPing submit_ok (JStr '''') (JStr ''pioneer-enrollment'') (JObj [])
             (JStr ''pioneer-core'') CORE_ENCRYPTION_KEY_ID CORE_ENCRYPTION_JWK fresh)) = []
   \<and> \<not> raises_invalid_id (sendPing submit_ok (JStr ''R1'') (JStr ''pioneer-enrollment'') (JObj [])
             (JStr ''pioneer-core'') CORE_ENCRYPTION_KEY_ID CORE_ENCRYPTION_JWK fresh)"
  using sendPing_validation [of submit_ok "JStr ''''" "JStr ''pioneer-enrollment''" "JObj []"
      "JStr ''pioneer-core''" CORE_ENCRYPTION_KEY_ID CORE_ENCRYPTION_JWK fresh]
    sendPing_validation [of submit_ok "JStr ''R1''" "JStr ''pioneer-enrollment''" "JObj []"
      "JStr ''pioneer-core''" CORE_ENCRYPTION_KEY_ID CORE_ENCRYPTION_JWK fresh]
  by (auto simp: fresh_def)

section \<open>Empty pings: enrollment and deletion\<close>

lemma sendEmptyPing_valid:
  "p \<noteq> [] \<Longrightarrow>
   calls (snd (sendEmptyPing submit (JStr p) t ns w)) =
     calls w @
       [\<lparr>pingType = ''pioneer-study'', pingPayload = JObj [],
         pingOptions = \<lparr>studyName = ns, addPioneerId = True, overridePioneerId = JStr p,
           encryptionKeyId = (if ns = JStr ''pioneer-core'' then JStr ''core'' else JStr ''discarded''),
           publicKey = (if ns = JStr ''pioneer-core'' then CORE_ENCRYPTION_JWK else DISCARDED_JWK),
           schemaName = t, schemaVersion = 1, schemaNamespace = ns\<rparr>\<rparr>]"
  by (simp add: sendEmptyPing_def sendPing_calls CORE_ENCRYPTION_KEY_ID_def)

lemma sendEmptyPing_returns:
  "p \<noteq> [] \<Longrightarrow>
   fst (sendEmptyPing submit (JStr p) t ns w) =
     (case submit
         \<lparr>pingType = ''pioneer-study'', pingPayload = JObj [],
          pingOptions = \<lparr>studyName = ns, addPioneerId = True, overridePioneerId = JStr p,
            encryptionKeyId = (if ns = JStr ''pioneer-core'' then JStr ''core'' else JStr ''discarded''),
            publicKey = (if ns = JStr ''pioneer-core'' then CORE_ENCRYPTION_JWK else DISCARDED_JWK),
            schemaName = t, schemaVersion = 1, schemaNamespace = ns\<rparr>\<rparr> of
        Threw err \<Rightarrow> Inl (HostError err)
      | _ \<Rightarrow> Inr ())"
  by (simp add: sendEmptyPing_def sendPing_returns CORE_ENCRYPTION_KEY_ID_def)

text \<open>
  C3. For every participant id, \<open>sendDeletionPing\<close> without a study id raises the
  missing-study-id error and leaves the world unchanged (no call to the host). For every
  non-empty string participant id \<open>p\<close> and every provided study id \<open>s\<close>, it makes one
  call with schema name \<^verbatim>\<open>"deletion-request"\<close>, schema namespace \<open>s\<close> and the empty
  object as payload, and it returns normally unless that call itself throws.
\<close>

theorem sendDeletionPing_contract:
  "sendDeletionPing submit rallyId JUndefined w = (Inl MissingStudyId, w)
   \<and> (p \<noteq> [] \<and> s \<noteq> JUndefined \<longrightarrow>
        (\<exists>c. calls (snd (sendDeletionPing submit (JStr p) s w)) = calls w @ [c]
              \<and> schemaName (pingOptions c) = JStr ''deletion-request''
              \<and> schemaNamespace (pingOptions c) = s
              \<and> pingPayload c = JObj []
              \<and> fst (sendDeletionPing submit (JStr p) s w) =
                  (case submit c of Threw err \<Rightarrow> Inl (HostError err) | _ \<Rightarrow> Inr ())))"
  by (simp add: sendDeletionPing_def sendEmptyPing_valid sendEmptyPing_returns)

theorem sendDeletionPing_contract_witness:
  "sendDeletionPing submit_ok (JStr ''R1'') JUndefined fresh = (Inl MissingStudyId, fresh)
   \<and> ''R1'' \<noteq> [] \<and> JStr ''study@example.com'' \<noteq> JUndefined
   \<and> (\<exists>c. calls (snd (sendDeletionPing submit_ok (JStr ''R1'') (JStr ''study@example.com'') fresh))
             = calls fresh @ [c]
          \<and> schemaName (pingOptions c) = JStr ''deletion-request''
          \<and> schemaNamespace (pingOptions c) = JStr ''study@example.com''
          \<and> pingPayload c = JObj []
          \<and> fst (sendDeletionPing submit_ok (JStr ''R1'') (JStr ''study@example.com'') fresh)
               = Inr ())"
  using sendDeletionPing_contract [of submit_ok "JStr ''R1''" fresh "''R1''" "JStr ''study@example.com''"]
  by (simp add: submit_ok_def)

text \<open>
  C4, as stated, fails for the non-empty study id \<^verbatim>\<open>"pioneer-core"\<close>: the key is chosen
  by comparing the namespace with that string, so this enrollment carries the key id
  \<^verbatim>\<open>"core"\<close>, not \<^verbatim>\<open>"discarded"\<close>.
\<close>

theorem sendEnrollmentPing_study_named_core_counterexample:
  "''R1'' \<noteq> [] \<and> ''pioneer-core'' \<noteq> []
   \<and> encryptionKeyId (pingOptions (last (calls (snd
         (sendEnrollmentPing submit_ok (JStr ''R1'') (JStr ''pioneer-core'') fresh)))))
       \<noteq> JStr ''discarded''"
  by (simp add: sendEnrollmentPing_def sendEmptyPing_def sendPing_def submit_ok_def fresh_def
      CORE_ENCRYPTION_KEY_ID_def Let_def)

text \<open>
  C4, amended. For every non-empty string participant id \<open>p\<close>, \<open>sendEnrollmentPing\<close>
  without a study id sends schema name \<^verbatim>\<open>"pioneer-enrollment"\<close>, schema namespace
  \<^verbatim>\<open>"pioneer-core"\<close>, key id \<^verbatim>\<open>"core"\<close> and the empty payload; for every
  non-empty study id \<open>s\<close> other than \<^verbatim>\<open>"pioneer-core"\<close> it sends schema namespace
  \<open>s\<close>, key id \<^verbatim>\<open>"discarded"\<close> and the empty payload.
\<close>

theorem sendEnrollmentPing_routing:
  assumes "p \<noteq> []"
  shows "(\<exists>c. calls (snd (sendEnrollmentPing submit (JStr p) JUndefined w)) = calls w @ [c]
            \<and> schemaName (pingOptions c) = JStr ''pioneer-enrollment''
            \<and> schemaNamespace (pingOptions c) = JStr ''pioneer-core''
            \<and> encryptionKeyId (pingOptions c) = JStr ''core''
            \<and> pingPayload c = JObj [])
       \<and> (s \<noteq> [] \<and> s \<noteq> ''pioneer-core'' \<longrightarrow>
            (\<exists>c. calls (snd (sendEnrollmentPing submit (JStr p) (JStr s) w)) = calls w @ [c]
               \<and> schemaName (pingOptions c) = JStr ''pioneer-enrollment''
               \<and> schemaNamespace (pingOptions c) = JStr s
               \<and> encryptionKeyId (pingOptions c) = JStr ''discarded''
               \<and> pingPayload c = JObj []))"
  using assms by (simp add: sendEnrollmentPing_def sendEmptyPing_valid)

theorem sendEnrollmentPing_routing_witness:
  "''R1'' \<noteq> []
   \<and> (\<exists>c. calls (snd (sendEnrollmentPing submit_ok (JStr ''R1'') JUndefined fresh)) = calls fresh @ [c]
            \<and> schemaName (pingOptions c) = JStr ''pioneer-enrollment''
            \<and> schemaNamespace (pingOptions c) = JStr ''pioneer-core''
            \<and> encryptionKeyId (pingOptions c) = JStr ''core''
            \<and> pingPayload c = JObj [])
   \<and> ''study@example.com'' \<noteq> [] \<and> ''study@example.com'' \<noteq> ''pioneer-core''
   \<and> (\<exists>c. calls (snd (sendEnrollmentPing submit_ok (JStr ''R1'') (JStr ''study@example.com'') fresh))
             = calls fresh @ [c]
          \<and> schemaName (pingOptions c) = JStr ''pioneer-enrollment''
          \<and> schemaNamespace (pingOptions c) = JStr ''study@example.com''
          \<and> encryptionKeyId (pingOptions c) = JStr ''discarded''
          \<and> pingPayload c = JObj [])"
  using sendEnrollmentPing_routing [of "''R1''" submit_ok fresh "''study@example.com''"]
  by simp

text \<open>
  C5. The key that \<^verbatim>\<open>_sendEmptyPing\<close> sends is a function of the namespace alone and
  choosing it never fails: for every valid participant id, payload type, host and world
  the ping is handed to the host, carrying key id \<^verbatim>\<open>"core"\<close> with the core JWK when
  the namespace is \<^verbatim>\<open>"pioneer-core"\<close>, and key id \<^verbatim>\<open>"discarded"\<close> with the
  discard JWK for every other namespace; the only error the operation can then end in is
  one thrown by that host call. Both keys are fixed P-256 keys, and
  they differ. The function has no key parameter, so its callers cannot override the
  choice.
\<close>

theorem key_selection_by_namespace:
  assumes "p \<noteq> []"
  shows "(\<exists>c. calls (snd (sendEmptyPing submit (JStr p) payloadType namespace w)) = calls w @ [c]
             \<and> (encryptionKeyId (pingOptions c), publicKey (pingOptions c)) =
                 (if namespace = JStr ''pioneer-core''
                  then (JStr ''core'', CORE_ENCRYPTION_JWK)
                  else (JStr ''discarded'', DISCARDED_JWK))
             \<and> fst (sendEmptyPing submit (JStr p) payloadType namespace w) =
                 (case submit c of Threw err \<Rightarrow> Inl (HostError err) | _ \<Rightarrow> Inr ()))
       \<and> (\<exists>jwk. CORE_ENCRYPTION_JWK = JObj jwk
             \<and> get_property jwk ''crv'' = JStr ''P-256''
             \<and> get_property jwk ''kid'' = JStr ''core'')
       \<and> (\<exists>jwk. DISCARDED_JWK = JObj jwk \<and> get_property jwk ''crv'' = JStr ''P-256'')
       \<and> CORE_ENCRYPTION_JWK \<noteq> DISCARDED_JWK"
proof -
  have "get_property [(''crv'', JStr ''P-256''), (''kid'', JStr ''core''), (''kty'', JStr ''EC''),
          (''x'', JStr ''muvXFcGjbk2uZCCa8ycoH8hVxeDCGPQ9Ed2-QHlTtuc''),
          (''y'', JStr ''xrLUev8_yUrSFAlabnHInvU4JKc6Ew3YXaaoDloQxw8'')] ''crv'' = JStr ''P-256''"
    by (simp add: get_property_def)
  moreover have "get_property [(''crv'', JStr ''P-256''), (''kid'', JStr ''core''), (''kty'', JStr ''EC''),
          (''x'', JStr ''muvXFcGjbk2uZCCa8ycoH8hVxeDCGPQ9Ed2-QHlTtuc''),
          (''y'', JStr ''xrLUev8_yUrSFAlabnHInvU4JKc6Ew3YXaaoDloQxw8'')] ''kid'' = JStr ''core''"
    by (simp add: get_property_def)
  moreover have "get_property [(''crv'', JStr ''P-256''), (''kty'', JStr ''EC''),
          (''x'', JStr ''XLkI3NaY3-AF2nRMspC63BT1u0Y3moXYSfss7VuQ0mk''),
          (''y'', JStr ''SB0KnIW-pqk85OIEYZenoNkEyOOp5GeWQhS1KeRtEUE'')] ''crv'' = JStr ''P-256''"
    by (simp add: get_property_def)
  moreover have "CORE_ENCRYPTION_JWK \<noteq> DISCARDED_JWK"
    by (simp add: CORE_ENCRYPTION_JWK_def DISCARDED_JWK_def)
  ultimately show ?thesis
    using assms
    by (simp add: sendEmptyPing_valid sendEmptyPing_returns CORE_ENCRYPTION_JWK_def
        DISCARDED_JWK_def)
qed

theorem key_selection_by_namespace_witness:
  "''R1'' \<noteq> []
   \<and> fst (sendEmptyPing submit_ok (JStr ''R1'') (JStr ''pioneer-enrollment'') (JStr ''pioneer-core'') fresh)
       = Inr ()
   \<and> publicKey (pingOptions (last (calls (snd
        (sendEmptyPing submit_ok (JStr ''R1'') (JStr ''pioneer-enrollment'') (JStr ''pioneer-core'') fresh)))))
       = CORE_ENCRYPTION_JWK
   \<and> publicKey (pingOptions (last (calls (snd
        (sendEmptyPing submit_ok (JStr ''R1'') (JStr ''pioneer-enrollment'') JNull fresh)))))
       = DISCARDED_JWK"
  using key_selection_by_namespace [of "''R1''" submit_ok "JStr ''pioneer-enrollment''" "JStr ''pioneer-core''" fresh]
    key_selection_by_namespace [of "''R1''" submit_ok "JStr ''pioneer-enrollment''" JNull fresh]
  by (auto simp: submit_ok_def)

section \<open>Transmission failures\<close>

text \<open>
  C8, as stated, fails when the call to the host primitive itself throws: the handlers
  sit on the promise the call returns, so the exception leaves \<open>sendPing\<close>, which raises
  with a valid participant id, and nothing is written to the console.
\<close>

theorem sendPing_host_call_throws_counterexample:
  "''R1'' \<noteq> []
   \<and> raises (sendPing submit_throws (JStr ''R1'') (JStr ''pioneer-enrollment'') (JObj [])
        (JStr ''pioneer-core'') CORE_ENCRYPTION_KEY_ID CORE_ENCRYPTION_JWK fresh)
   \<and> fst (sendPing submit_throws (JStr ''R1'') (JStr ''pioneer-enrollment'') (JObj [])
        (JStr ''pioneer-core'') CORE_ENCRYPTION_KEY_ID CORE_ENCRYPTION_JWK fresh)
       = Inl (HostError ''Type error for parameter options'')
   \<and> console (snd (sendPing submit_throws (JStr ''R1'') (JStr ''pioneer-enrollment'') (JObj [])
        (JStr ''pioneer-core'') CORE_ENCRYPTION_KEY_ID CORE_ENCRYPTION_JWK fresh)) = []"
  by (simp add: sendPing_def Let_def submit_throws_def fresh_def raises_def)

text \<open>
  C8, amended. For every input that passes the participant-id check, \<open>sendPing\<close> calls
  the host primitive exactly once, and whenever that call returns a promise it returns
  normally: when the promise is fulfilled the one console line added is the debug line,
  and when it is rejected the rejection is caught and the one console line added is the
  error line carrying its error.
\<close>

theorem sendPing_swallows_transmission_failure:
  assumes "p \<noteq> []"
  shows "\<exists>c. pingType c = ''pioneer-study'' \<and> pingPayload c = payload
           \<and> calls (snd (sendPing submit (JStr p) kindLabel payload namespace keyId key w))
               = calls w @ [c]
           \<and> (submit c = Resolved \<longrightarrow>
                sendPing submit (JStr p) kindLabel payload namespace keyId key w =
                  (Inr (),
                   \<lparr>calls = calls w @ [c],
                    console = console w @ [ConsoleDebug (pingOptions c) payload]\<rparr>))
           \<and> (\<forall>err. submit c = Rejected err \<longrightarrow>
                sendPing submit (JStr p) kindLabel payload namespace keyId key w =
                  (Inr (),
                   \<lparr>calls = calls w @ [c], console = console w @ [ConsoleError err]\<rparr>))"
proof -
  define c where
    "c = \<lparr>pingType = ''pioneer-study'', pingPayload = payload,
          pingOptions = \<lparr>studyName = namespace, addPioneerId = True,
            overridePioneerId = JStr p, encryptionKeyId = keyId, publicKey = key,
            schemaName = kindLabel, schemaVersion = 1, schemaNamespace = namespace\<rparr>\<rparr>"
  have run: "sendPing submit (JStr p) kindLabel payload namespace keyId key w =
      (case submit c of
         Resolved \<Rightarrow>
           (Inr (),
            \<lparr>calls = calls w @ [c],
             console = console w @ [ConsoleDebug (pingOptions c) payload]\<rparr>)
       | Rejected err \<Rightarrow>
           (Inr (), \<lparr>calls = calls w @ [c], console = console w @ [ConsoleError err]\<rparr>)
       | Threw err \<Rightarrow>
           (Inl (HostError err), \<lparr>calls = calls w @ [c], console = console w\<rparr>))"
    using assms by (simp add: sendPing_valid c_def split: outcome.split)
  have "pingType c = ''pioneer-study''" and "pingPayload c = payload"
    by (simp_all add: c_def)
  moreover have "calls (snd (sendPing submit (JStr p) kindLabel payload namespace keyId key w))
      = calls w @ [c]"
    by (simp add: run split: outcome.split)
  moreover have "submit c = Resolved \<longrightarrow>
      sendPing submit (JStr p) kindLabel payload namespace keyId key w =
        (Inr (),
         \<lparr>calls = calls w @ [c],
          console = console w @ [ConsoleDebug (pingOptions c) payload]\<rparr>)"
    by (simp add: run)
  moreover have "\<forall>err. submit c = Rejected err \<longrightarrow>
      sendPing submit (JStr p) kindLabel payload namespace keyId key w =
        (Inr (), \<lparr>calls = calls w @ [c], console = console w @ [ConsoleError err]\<rparr>)"
    by (simp add: run)
  ultimately show ?thesis
    by blast
qed

theorem sendPing_swallows_transmission_failure_witness:
  "''R1'' \<noteq> []
   \<and> fst (sendPing submit_fails (JStr ''R1'') (JStr ''pioneer-enrollment'') (JObj [])
            (JStr ''pioneer-core'') CORE_ENCRYPTION_KEY_ID CORE_ENCRYPTION_JWK fresh) = Inr ()
   \<and> length (calls (snd (sendPing submit_fails (JStr ''R1'') (JStr ''pioneer-enrollment'') (JObj [])
            (JStr ''pioneer-core'') CORE_ENCRYPTION_KEY_ID CORE_ENCRYPTION_JWK fresh))) = 1
   \<and> console (snd (sendPing submit_fails (JStr ''R1'') (JStr ''pioneer-enrollment'') (JObj [])
            (JStr ''pioneer-core'') CORE_ENCRYPTION_KEY_ID CORE_ENCRYPTION_JWK fresh))
       = [ConsoleError ''NetworkError'']"
  using sendPing_swallows_transmission_failure [where p = "''R1''" and submit = submit_fails
      and kindLabel = "JStr ''pioneer-enrollment''" and payload = "JObj []"
      and namespace = "JStr ''pioneer-core''" and keyId = CORE_ENCRYPTION_KEY_ID
      and key = CORE_ENCRYPTION_JWK and w = fresh]
  by (auto simp: submit_fails_def fresh_def)

section \<open>Study name and schema namespace\<close>

lemma sendPing_keeps_routing:
  assumes "list_all routing_consistent (calls w)"
  shows "list_all routing_consistent (calls (snd (sendPing submit rallyId t pl ns kid key w)))"
proof (cases "ToBoolean rallyId \<and> typeof rallyId = ''string''")
  case True
  then obtain p where "p \<noteq> []" "rallyId = JStr p"
    by (auto simp: valid_rally_id)
  with assms show ?thesis
    by (simp add: sendPing_calls routing_consistent_def)
next
  case False
  then have "sendPing submit rallyId t pl ns kid key w = (Inl (InvalidRallyId rallyId), w)"
    by (intro sendPing_invalid) blast
  with assms show ?thesis by simp
qed

lemma sendEmptyPing_keeps_routing:
  "list_all routing_consistent (calls w) \<Longrightarrow>
   list_all routing_consistent (calls (snd (sendEmptyPing submit rallyId t ns w)))"
  by (simp add: sendEmptyPing_def sendPing_keeps_routing split: if_splits)

text \<open>
  C9. Every operation of the class keeps the invariant that in each call handed to the
  host primitive the \<^verbatim>\<open>studyName\<close> option equals the \<^verbatim>\<open>schemaNamespace\<close> option,
  for every input.
\<close>

theorem dispatch_keeps_study_name_and_namespace_equal:
  assumes "list_all routing_consistent (calls w)"
  shows "list_all routing_consistent
           (calls (snd (sendPing submit rallyId kindLabel payload namespace keyId key w)))
       \<and> list_all routing_consistent
           (calls (snd (sendEmptyPing submit rallyId kindLabel namespace w)))
       \<and> list_all routing_consistent
           (calls (snd (sendEnrollmentPing submit rallyId studyAddonId w)))
       \<and> list_all routing_consistent
           (calls (snd (sendDeletionPing submit rallyId studyAddonId w)))
       \<and> list_all routing_consistent
           (calls (snd (sendDemographicSurveyPing tostr submit rallyId data w)))"
proof -
  have "list_all routing_consistent
          (calls (snd (sendDemographicSurveyPing tostr submit rallyId data w)))"
    using assms
    by (simp add: sendDemographicSurveyPing_def Let_def sendPing_keeps_routing split: jsval.split)
  with assms show ?thesis
    by (simp add: sendPing_keeps_routing sendEmptyPing_keeps_routing sendEnrollmentPing_def
        sendDeletionPing_def)
qed

theorem dispatch_keeps_study_name_and_namespace_equal_witness:
  "list_all routing_consistent (calls fresh)
   \<and> list_all routing_consistent
       (calls (snd (sendPing submit_ok (JStr ''R1'') (JStr ''demographic-survey'') (JObj [])
          (JStr ''pioneer-core'') CORE_ENCRYPTION_KEY_ID CORE_ENCRYPTION_JWK fresh)))
   \<and> list_all routing_consistent
       (calls (snd (sendEnrollmentPing submit_ok (JStr ''R1'') (JStr ''study@example.com'') fresh)))
   \<and> list_all routing_consistent
       (calls (snd (sendDeletionPing submit_ok (JStr ''R1'') (JStr ''study@example.com'') fresh)))
   \<and> list_all routing_consistent
       (calls (snd (sendDemographicSurveyPing tostr_object submit_ok (JStr ''R1'')
          [(''age'', JStr ''25-34'')] fresh)))
   \<and> calls (snd (sendEnrollmentPing submit_ok (JStr ''R1'') (JStr ''study@example.com'') fresh)) \<noteq> []"
proof -
  have h: "list_all routing_consistent (calls fresh)"
    by (simp add: fresh_def)
  have "calls (snd (sendEnrollmentPing submit_ok (JStr ''R1'') (JStr ''study@example.com'') fresh)) \<noteq> []"
    by (simp add: sendEnrollmentPing_def sendEmptyPing_valid)
  with h show ?thesis
    using dispatch_keeps_study_name_and_namespace_equal [OF h, of submit_ok "JStr ''R1''"
        "JStr ''demographic-survey''" "JObj []" "JStr ''pioneer-core''" CORE_ENCRYPTION_KEY_ID
        CORE_ENCRYPTION_JWK "JStr ''study@example.com''" tostr_object "[(''age'', JStr ''25-34'')]"]
    by simp
qed

section \<open>The default namespace of enrollment\<close>

text \<open>
  C10, as stated, fails for the provided value \<^verbatim>\<open>"pioneer-core"\<close>: it is used verbatim
  as the namespace, and it does not select the \<^verbatim>\<open>"discarded"\<close> key.
\<close>

theorem sendEnrollmentPing_provided_core_counterexample:
  "JStr ''pioneer-core'' \<noteq> JUndefined
   \<and> schemaNamespace (pingOptions (last (calls (snd
         (sendEnrollmentPing submit_fails (JStr ''R2'') (JStr ''pioneer-core'') fresh)))))
       = JStr ''pioneer-core''
   \<and> \<not> encryptionKeyId (pingOptions (last (calls (snd
         (sendEnrollmentPing submit_fails (JStr ''R2'') (JStr ''pioneer-core'') fresh)))))
       = JStr ''discarded''"
  by (simp add: sendEnrollmentPing_def sendEmptyPing_def sendPing_def submit_fails_def fresh_def
      CORE_ENCRYPTION_KEY_ID_def Let_def)

text \<open>
  C10, amended. \<open>sendEnrollmentPing\<close> routes to \<^verbatim>\<open>"pioneer-core"\<close> by default only
  when the study id is \<^verbatim>\<open>undefined\<close>; any other value, the empty string and
  \<^verbatim>\<open>null\<close> included, is the namespace verbatim. That value selects the
  \<^verbatim>\<open>"discarded"\<close> key unless it is the string \<^verbatim>\<open>"pioneer-core"\<close> itself, which
  selects the \<^verbatim>\<open>"core"\<close> key.
\<close>

theorem sendEnrollmentPing_default_only_when_undefined:
  assumes "p \<noteq> []"
  shows "\<exists>c. calls (snd (sendEnrollmentPing submit (JStr p) studyAddonId w)) = calls w @ [c]
           \<and> schemaNamespace (pingOptions c) =
               (if studyAddonId = JUndefined then JStr ''pioneer-core'' else studyAddonId)
           \<and> encryptionKeyId (pingOptions c) =
               (if studyAddonId = JUndefined \<or> studyAddonId = JStr ''pioneer-core''
                then JStr ''core'' else JStr ''discarded'')"
  using assms by (simp add: sendEnrollmentPing_def sendEmptyPing_valid)

theorem sendEnrollmentPing_default_only_when_undefined_witness:
  "''R1'' \<noteq> []
   \<and> (\<exists>c. calls (snd (sendEnrollmentPing submit_ok (JStr ''R1'') (JStr '''') fresh)) = calls fresh @ [c]
          \<and> schemaNamespace (pingOptions c) = JStr ''''
          \<and> encryptionKeyId (pingOptions c) = JStr ''discarded'')
   \<and> (\<exists>c. calls (snd (sendEnrollmentPing submit_ok (JStr ''R1'') JNull fresh)) = calls fresh @ [c]
          \<and> schemaNamespace (pingOptions c) = JNull
          \<and> encryptionKeyId (pingOptions c) = JStr ''discarded'')
   \<and> (\<exists>c. calls (snd (sendEnrollmentPing submit_ok (JStr ''R1'') JUndefined fresh)) = calls fresh @ [c]
          \<and> schemaNamespace (pingOptions c) = JStr ''pioneer-core''
          \<and> encryptionKeyId (pingOptions c) = JStr ''core'')"
  using sendEnrollmentPing_default_only_when_undefined [of "''R1''" submit_ok "JStr ''''" fresh]
    sendEnrollmentPing_default_only_when_undefined [of "''R1''" submit_ok JNull fresh]
    sendEnrollmentPing_default_only_when_undefined [of "''R1''" submit_ok JUndefined fresh]
  by simp

section \<open>Shaping the demographic survey\<close>

lemma map_of_set_property:
  "map_of (set_property obj k v) = (if k = ''__proto__'' then map_of obj else (map_of obj)(k \<mapsto> v))"
  by (simp add: set_property_def update_conv')



text \<open>
  What the reduction over the race array builds: a key maps to \<^verbatim>\<open>true\<close> exactly when it
  is the property key of an element and is not \<^verbatim>\<open>__proto__\<close>. The result therefore
  depends on the set of elements only, not on their order or multiplicity.
\<close>

lemma map_of_foldl_races:
  "map_of (foldl (\<lambda>a b. set_property a (ToPropertyKey tostr b) (JBool True)) acc race) k =
     (if k \<in> ToPropertyKey tostr ` set race \<and> k \<noteq> ''__proto__''
      then Some (JBool True) else map_of acc k)"
proof (induction race arbitrary: acc)
  case Nil
  then show ?case by simp
next
  case (Cons b race)
  then show ?case
    by (auto simp: map_of_set_property)
qed

lemma map_of_reduce_races:
  "map_of (reduce_races tostr race) k =
     (if k \<in> ToPropertyKey tostr ` set race \<and> k \<noteq> ''__proto__'' then Some (JBool True) else None)"
  by (simp add: reduce_races_def map_of_foldl_races)

lemma reduce_races_order_independent:
  "set xs = set ys \<Longrightarrow> map_of (reduce_races tostr xs) = map_of (reduce_races tostr ys)"
  by (rule ext) (simp add: map_of_reduce_races)

lemma reduce_races_selected:
  "JStr s \<in> set race \<Longrightarrow> s \<noteq> ''__proto__'' \<Longrightarrow>
   map_of (reduce_races tostr race) s = Some (JBool True)"
  by (force simp: map_of_reduce_races ToPropertyKey_def)

text \<open>
  C7. Race shaping is meant to give every selected category the value \<^verbatim>\<open>true\<close>. The
  reduction assigns \<^verbatim>\<open>a[b] = true\<close> on a plain object, and for the category string
  \<^verbatim>\<open>"__proto__"\<close> that assignment creates no property: the answers
  \<^verbatim>\<open>{race: ["__proto__"]}\<close> are sent with the payload \<^verbatim>\<open>{races: {}}\<close>, and in
  \<^verbatim>\<open>["white", "__proto__"]\<close> the second category is lost.
\<close>

theorem reduce_races_loses_proto_category:
  "reduce_races tostr_object [JStr ''__proto__''] = []
   \<and> map_of (reduce_races tostr_object [JStr ''white'', JStr ''__proto__'']) ''__proto__''
       \<noteq> Some (JBool True)
   \<and> pingPayload (last (calls (snd
        (sendDemographicSurveyPing tostr_object submit_ok (JStr ''R1'')
           [(''race'', JArr [JStr ''__proto__''])] fresh))))
       = JObj [(''races'', JObj [])]"
  by (simp add: reduce_races_def set_property_def ToPropertyKey_def
      sendDemographicSurveyPing_def FIELD_MAPPING_def has_property_def get_property_def
      sendPing_def Let_def submit_ok_def fresh_def)








end
